theory Spec2Isabelle
  imports Complex_Main "HOL-Library.Option_ord"
begin

section \<open>Settlement core of the DamnBruh betting backend\<close>

text \<open>
  A shallow embedding of \<^verbatim>\<open>config.py\<close>, \<^verbatim>\<open>models.py\<close>, \<^verbatim>\<open>database.py\<close> and the
  game handlers of \<^verbatim>\<open>server.py\<close>.

  Numbers. A Python \<^verbatim>\<open>Decimal\<close> is modelled by its value, a rational. The
  constructor is exact; every arithmetic operation rounds its result to the 28
  significant digits of the default context, half to even (\<open>context_round\<close>).
  Only finite values are modelled, and the exponent limits of the context are not.
  A BSON double held in a document is modelled by the value that
  \<^verbatim>\<open>Decimal(str(x))\<close> reads back from it, which is how the handlers read every stored
  amount. Writing a Decimal \<open>d\<close> as \<^verbatim>\<open>float(d)\<close> is the function \<open>to_float\<close>, a
  parameter of the model: binary rounding is not modelled. For a double, \<open>to_float d\<close>
  is \<open>d\<close> when \<open>d\<close> has at most 15 significant digits, and need not be otherwise.

  Time. \<^verbatim>\<open>datetime.utcnow()\<close> is a clock reading in milliseconds (the resolution of
  a BSON date), an input of each operation, as are the values of \<^verbatim>\<open>uuid.uuid4()\<close> and
  of \<^verbatim>\<open>random\<close>.
\<close>

subsection \<open>decimal: arithmetic in the default context\<close>

text \<open>The number of decimal digits of a natural number (\<open>0\<close> has the one digit \<open>0\<close>).\<close>

fun num_digits :: "nat \<Rightarrow> nat" where
  "num_digits n = (if n < 10 then 1 else Suc (num_digits (n div 10)))"

declare num_digits.simps [simp del]

definition round_half_even :: "rat \<Rightarrow> int" where
  "round_half_even y =
     (let f = \<lfloor>y\<rfloor>; r = y - of_int f
      in if r < 1 / 2 then f else if 1 / 2 < r then f + 1
         else if even f then f else f + 1)"

text \<open>
  Rounding to 28 significant digits. A value \<open>a > 0\<close> is first scaled by a power of
  ten, \<open>scale_exponent a\<close>, large enough to bring it above \<open>10 ^ 27\<close>; the digits
  of its integer part beyond the 28th, \<open>excess_digits\<close> many, are then rounded away.
\<close>

definition scale_exponent :: "rat \<Rightarrow> nat" where
  "scale_exponent a = 27 + num_digits (nat \<lceil>1 / a\<rceil>)"

definition excess_digits :: "rat \<Rightarrow> nat" where
  "excess_digits y = num_digits (nat \<lfloor>y\<rfloor>) - 28"

definition context_round :: "rat \<Rightarrow> rat" where
  "context_round x =
     (if x = 0 then 0
      else
        let a = \<bar>x\<bar>;
            s = scale_exponent a;
            y = a * 10 ^ s;
            k = excess_digits y;
            m = round_half_even (y / 10 ^ k)
        in sgn x * of_int m * 10 ^ k / 10 ^ s)"

text \<open>The operators \<^verbatim>\<open>+\<close>, \<^verbatim>\<open>-\<close> and \<^verbatim>\<open>*\<close> of \<^verbatim>\<open>Decimal\<close>.\<close>

definition Decimal_add :: "rat \<Rightarrow> rat \<Rightarrow> rat" where
  "Decimal_add x y = context_round (x + y)"

definition Decimal_sub :: "rat \<Rightarrow> rat \<Rightarrow> rat" where
  "Decimal_sub x y = context_round (x - y)"

definition Decimal_mul :: "rat \<Rightarrow> rat \<Rightarrow> rat" where
  "Decimal_mul x y = context_round (x * y)"

text \<open>A value has at most 28 significant digits.\<close>

definition fits_context :: "rat \<Rightarrow> bool" where
  "fits_context x \<longleftrightarrow> (\<exists>c p q. c < (10::nat) ^ 28 \<and> \<bar>x\<bar> * 10 ^ p = of_nat c * 10 ^ q)"

subsection \<open>config.py\<close>

record Settings =
  MIN_BET_AMOUNT :: rat
  MAX_BET_AMOUNT :: rat
  HOUSE_EDGE :: rat
  MAX_DAILY_WITHDRAWAL :: rat
  DEFAULT_COMMISSION_RATE :: rat

text \<open>The values \<^verbatim>\<open>Settings\<close> takes when the environment sets none of them.\<close>

definition default_settings :: Settings where
  "default_settings =
     \<lparr>MIN_BET_AMOUNT = 1 / 1000, MAX_BET_AMOUNT = 10, HOUSE_EDGE = 2 / 100,
      MAX_DAILY_WITHDRAWAL = 100, DEFAULT_COMMISSION_RATE = 5 / 100\<rparr>"

subsection \<open>models.py: request and response models\<close>

text \<open>
  The bet amount of an incoming request is a decimal literal; \<^verbatim>\<open>max_digits\<close> and
  \<^verbatim>\<open>decimal_places\<close> depend on its digits, not only on its value, so the literal is
  kept as Python's \<^verbatim>\<open>Decimal.as_tuple()\<close> has it: sign, coefficient and exponent.
\<close>

record Decimal_literal =
  negative :: bool
  coefficient :: nat
  exponent :: int

definition decimal_value :: "Decimal_literal \<Rightarrow> rat" where
  "decimal_value d =
     (let m = (if exponent d \<ge> 0 then of_nat (coefficient d) * 10 ^ nat (exponent d)
               else of_nat (coefficient d) / 10 ^ nat (- exponent d))
      in if negative d then - m else m)"

text \<open>
  \<^verbatim>\<open>Decimal.normalize()\<close>: the literal is rounded to the precision of the context,
  trailing zeros of the coefficient are removed, and zero becomes \<open>0E0\<close>.
\<close>

definition literal_round :: "nat \<Rightarrow> int \<Rightarrow> nat \<times> int" where
  "literal_round c e =
     (let n = num_digits c
      in if n \<le> 28 then (c, e)
         else
           let k = n - 28;
               q = c div 10 ^ k;
               r = c mod 10 ^ k;
               h = 5 * 10 ^ (k - 1)
           in (if r < h then q else if h < r then q + 1
               else if even q then q else q + 1, e + int k))"

fun strip_zeros :: "nat \<Rightarrow> int \<Rightarrow> nat \<times> int" where
  "strip_zeros c e =
     (if c = 0 then (0, 0)
      else if c mod 10 = 0 then strip_zeros (c div 10) (e + 1)
      else (c, e))"

declare strip_zeros.simps [simp del]

definition normalize :: "Decimal_literal \<Rightarrow> Decimal_literal" where
  "normalize d =
     (case literal_round (coefficient d) (exponent d) of
        (c, e) \<Rightarrow> (case strip_zeros c e of
                     (c', e') \<Rightarrow> d\<lparr>coefficient := c', exponent := e'\<rparr>))"

type_synonym appearance = "(string \<times> string) list"

record BetRequest_input =
  in_bet_amount :: Decimal_literal
  in_game_type :: string
  in_appearance :: "appearance option"

record BetRequest =
  req_bet_amount :: rat
  req_game_type :: string
  req_appearance :: "appearance option"

record GameEnd =
  ge_game_session_id :: string
  ge_final_score :: int
  ge_final_rank :: int

text \<open>
  The field constraints of \<^verbatim>\<open>bet_amount\<close>: \<^verbatim>\<open>gt=0\<close>, then the digit counts of
  \<^verbatim>\<open>max_digits=18, decimal_places=6\<close>, which pydantic takes from the digit tuple
  and the exponent of the normalised literal.
\<close>

definition bet_amount_field_errors :: "Decimal_literal \<Rightarrow> string list" where
  "bet_amount_field_errors d =
     (if \<not> decimal_value d > 0 then [''ensure this value is greater than 0'']
      else
        let normalized_value = normalize d;
            len = num_digits (coefficient normalized_value);
            e = exponent normalized_value;
            digits = (if e \<ge> 0 then int len + e else if \<bar>e\<bar> > int len then \<bar>e\<bar> else int len);
            decimals = (if e \<ge> 0 then 0 else \<bar>e\<bar>);
            whole_digits = digits - decimals
        in if digits > 18 then [''ensure that there are no more than 18 digits in total'']
           else if decimals > 6 then [''ensure that there are no more than 6 decimal places'']
           else if whole_digits > 18 - 6
             then [''ensure that there are no more than 12 digits before the decimal point'']
           else [])"

definition validate_bet_amount :: "rat \<Rightarrow> string + rat" where
  "validate_bet_amount v =
     (if v \<le> 0 then Inl ''Bet amount must be positive''
      else if v > 10 then Inl ''Bet amount exceeds maximum limit''
      else Inr v)"

definition allowed_types :: "string list" where
  "allowed_types = [''skill_match'', ''tournament'', ''practice'']"

definition validate_game_type :: "string \<Rightarrow> string + string" where
  "validate_game_type v =
     (if v \<notin> set allowed_types
      then Inl (''Game type must be one of: ['' @ [CHR 0x27] @ ''skill_match'' @ [CHR 0x27]
                @ '', '' @ [CHR 0x27] @ ''tournament'' @ [CHR 0x27]
                @ '', '' @ [CHR 0x27] @ ''practice'' @ [CHR 0x27] @ '']'')
      else Inr v)"

definition game_type_field_errors :: "string \<Rightarrow> string list" where
  "game_type_field_errors v =
     (if length v < 1 then [''ensure this value has at least 1 characters'']
      else if length v > 32 then [''ensure this value has at most 32 characters'']
      else [])"

text \<open>
  Constructing a \<^verbatim>\<open>BetRequest\<close>: each field passes its constraints and then its
  validator; the errors of all fields are collected, and any error rejects the request.
\<close>

definition BetRequest_errors :: "BetRequest_input \<Rightarrow> string list" where
  "BetRequest_errors r =
     (case bet_amount_field_errors (in_bet_amount r) of
        [] \<Rightarrow> (case validate_bet_amount (decimal_value (in_bet_amount r)) of
                 Inl msg \<Rightarrow> [msg] | Inr _ \<Rightarrow> [])
      | errs \<Rightarrow> errs)
     @ (case game_type_field_errors (in_game_type r) of
          [] \<Rightarrow> (case validate_game_type (in_game_type r) of Inl msg \<Rightarrow> [msg] | Inr _ \<Rightarrow> [])
        | errs \<Rightarrow> errs)"

definition parse_BetRequest :: "BetRequest_input \<Rightarrow> string list + BetRequest" where
  "parse_BetRequest r =
     (case BetRequest_errors r of
        [] \<Rightarrow> Inr \<lparr>req_bet_amount = decimal_value (in_bet_amount r),
                   req_game_type = in_game_type r, req_appearance = in_appearance r\<rparr>
      | errs \<Rightarrow> Inl errs)"

record player =
  player_id :: string
  player_username :: string
  player_score :: int
  player_appearance :: appearance

record GameSession =
  game_session_id :: string
  gs_bet_amount :: rat
  gs_new_balance :: rat
  game_state :: string
  other_players :: "player list"

record GameResult =
  gr_payout :: rat
  gr_new_balance :: rat
  gr_rank :: int
  gr_total_players :: int
  game_result :: string


subsection \<open>auth.py\<close>

record AuthenticatedUser =
  au_user_id :: string
  au_app_id :: string
  au_email :: "string option"
  au_wallet_address :: "string option"

subsection \<open>database.py: documents and collections\<close>

text \<open>
  A document is a record; a key that a document may lack is an \<open>option\<close> field
  (\<open>None\<close>: the key is absent; no operation writes a null). The \<^verbatim>\<open>_id\<close> of each document is the field
  \<open>u_id\<close>, \<open>s_id\<close>, \<open>t_id\<close> or \<open>a_id\<close>. No operation of the repository writes
  \<open>total_wins\<close>; the leaderboard pipeline reads it.
\<close>

record user =
  u_id :: string
  privy_user_id :: string
  email :: "string option"
  wallet_address :: "string option"
  balance :: "rat option"
  total_games :: "int option"
  total_winnings :: "rat option"
  total_wins :: "int option"
  referral_code :: "string option"
  referred_by :: "string option"
  username :: "string option"
  display_name :: "string option"
  u_appearance :: "appearance option"
  u_created_at :: "int option"
  updated_at :: "int option"

record game_session =
  s_id :: string
  s_user_id :: string
  s_game_type :: string
  s_bet_amount :: rat
  s_appearance :: "appearance option"
  s_created_at :: int
  s_status :: string
  s_final_score :: "int option"
  s_final_rank :: "int option"
  s_payout :: "rat option"
  s_ended_at :: "int option"

datatype meta_value = MStr string | MInt int

record txn =
  t_id :: string
  t_user_id :: string
  t_type :: string
  t_amount :: rat
  t_status :: string
  t_reference_id :: string
  t_metadata :: "(string \<times> meta_value) list"
  t_created_at :: int

record affiliate =
  a_id :: string
  a_user_id :: string
  a_referral_code :: string
  commission_rate :: rat
  total_referrals :: int
  total_commission :: rat
  pending_commission :: rat
  is_active :: bool
  a_created_at :: int

text \<open>A collection is the list of its documents, in insertion order.\<close>

record db =
  users :: "user list"
  game_sessions :: "game_session list"
  transactions :: "txn list"
  affiliates :: "affiliate list"

datatype error = HTTPException nat string | DuplicateKeyError

text \<open>Python's \<^verbatim>\<open>d.get(key, default)\<close>.\<close>

definition dict_get :: "'a option \<Rightarrow> 'a \<Rightarrow> 'a" where
  "dict_get v dflt = (case v of None \<Rightarrow> dflt | Some x \<Rightarrow> x)"

text \<open>
  \<^verbatim>\<open>find_one(filter)\<close> is \<^const>\<open>find\<close>: the first document that matches.
  \<^verbatim>\<open>update_one(filter, {"$set": ...})\<close> changes the first document that matches, and
  nothing when none does. \<^verbatim>\<open>insert_one\<close> raises when the new document repeats a key
  of a unique index.
\<close>

fun update_one :: "('a \<Rightarrow> bool) \<Rightarrow> ('a \<Rightarrow> 'a) \<Rightarrow> 'a list \<Rightarrow> 'a list" where
  "update_one P f [] = []"
| "update_one P f (x # xs) = (if P x then f x # xs else x # update_one P f xs)"


definition game_sessions_insert_one ::
    "game_session \<Rightarrow> game_session list \<Rightarrow> error + game_session list" where
  "game_sessions_insert_one d ss =
     (if s_id d \<in> set (map s_id ss) then Inl DuplicateKeyError else Inr (ss @ [d]))"

definition transactions_insert_one :: "txn \<Rightarrow> txn list \<Rightarrow> error + txn list" where
  "transactions_insert_one d ts =
     (if t_id d \<in> set (map t_id ts) then Inl DuplicateKeyError else Inr (ts @ [d]))"


subsection \<open>database.py: operations\<close>


definition get_user_by_privy_id :: "db \<Rightarrow> string \<Rightarrow> user option" where
  "get_user_by_privy_id d privy_id = find (\<lambda>u. privy_user_id u = privy_id) (users d)"

definition update_user :: "db \<Rightarrow> string \<Rightarrow> (user \<Rightarrow> user) \<Rightarrow> int \<Rightarrow> db" where
  "update_user d user_id update_data now =
     d\<lparr>users := update_one (\<lambda>u. u_id u = user_id)
                    (\<lambda>u. (update_data u)\<lparr>updated_at := Some now\<rparr>) (users d)\<rparr>"

definition update_user_balance :: "(rat \<Rightarrow> rat) \<Rightarrow> db \<Rightarrow> string \<Rightarrow> rat \<Rightarrow> int \<Rightarrow> db" where
  "update_user_balance to_float d user_id new_balance now =
     d\<lparr>users := update_one (\<lambda>u. u_id u = user_id)
                    (\<lambda>u. u\<lparr>balance := Some (to_float new_balance), updated_at := Some now\<rparr>)
                    (users d)\<rparr>"

definition create_game_session ::
    "db \<Rightarrow> string \<Rightarrow> string \<Rightarrow> rat \<Rightarrow> appearance option \<Rightarrow> string \<Rightarrow> int
       \<Rightarrow> error + game_session \<times> db" where
  "create_game_session d user_id game_type bet_amount appearance' uuid now =
     (let session_data =
            \<lparr>s_id = uuid, s_user_id = user_id, s_game_type = game_type,
             s_bet_amount = bet_amount, s_appearance = appearance', s_created_at = now,
             s_status = ''active'', s_final_score = None, s_final_rank = None,
             s_payout = None, s_ended_at = None\<rparr>
      in case game_sessions_insert_one session_data (game_sessions d) of
           Inl e \<Rightarrow> Inl e
         | Inr ss \<Rightarrow> Inr (session_data, d\<lparr>game_sessions := ss\<rparr>))"

definition update_game_session :: "db \<Rightarrow> string \<Rightarrow> (game_session \<Rightarrow> game_session) \<Rightarrow> db" where
  "update_game_session d session_id update_data =
     d\<lparr>game_sessions := update_one (\<lambda>s. s_id s = session_id) update_data (game_sessions d)\<rparr>"

definition create_transaction ::
    "db \<Rightarrow> string \<Rightarrow> string \<Rightarrow> rat \<Rightarrow> string option \<Rightarrow> string \<Rightarrow> (string \<times> meta_value) list
       \<Rightarrow> string \<Rightarrow> int \<Rightarrow> error + txn \<times> db" where
  "create_transaction d user_id type' amount status reference_id metadata uuid now =
     (let transaction_data =
            \<lparr>t_id = uuid, t_user_id = user_id, t_type = type', t_amount = amount,
             t_status = dict_get status ''pending'', t_reference_id = reference_id,
             t_metadata = metadata, t_created_at = now\<rparr>
      in case transactions_insert_one transaction_data (transactions d) of
           Inl e \<Rightarrow> Inl e
         | Inr ts \<Rightarrow> Inr (transaction_data, d\<lparr>transactions := ts\<rparr>))"


subsection \<open>database.py: the leaderboard pipeline\<close>

text \<open>
  The aggregation pipeline of \<^verbatim>\<open>get_global_leaderboard\<close>, stage by stage, with the
  meaning MongoDB gives each stage.

  \<^verbatim>\<open>$match\<close>: a comparison with \<^verbatim>\<open>$gte\<close> selects the documents that have the field
  and whose value is at least the bound. A day is 86400000 milliseconds.
\<close>

definition timedelta_days :: "int \<Rightarrow> int" where
  "timedelta_days n = n * 86400000"

definition date_filter :: "string \<Rightarrow> int \<Rightarrow> int option" where
  "date_filter period now =
     (if period = ''daily'' then Some (now - timedelta_days 1)
      else if period = ''weekly'' then Some (now - timedelta_days 7)
      else if period = ''monthly'' then Some (now - timedelta_days 30)
      else None)"

definition match_stage :: "int option \<Rightarrow> user list \<Rightarrow> user list" where
  "match_stage flt us =
     (case flt of
        None \<Rightarrow> us
      | Some bound \<Rightarrow>
          filter (\<lambda>u. case u_created_at u of None \<Rightarrow> False | Some t \<Rightarrow> bound \<le> t) us)"

text \<open>
  \<^verbatim>\<open>$sort: {total_winnings: -1, total_games: -1}\<close>: descending by \<open>total_winnings\<close>,
  then descending by \<open>total_games\<close>. A missing field compares below every number
  (the order of \<open>option\<close>). MongoDB leaves the order of documents that agree on both
  keys open; the model keeps their collection order.
\<close>

definition sorts_before :: "user \<Rightarrow> user \<Rightarrow> bool" where
  "sorts_before a b \<longleftrightarrow>
     total_winnings b < total_winnings a
     \<or> (total_winnings a = total_winnings b \<and> total_games b \<le> total_games a)"

fun insert_sorted :: "user \<Rightarrow> user list \<Rightarrow> user list" where
  "insert_sorted u [] = [u]"
| "insert_sorted u (v # vs) =
     (if sorts_before u v then u # v # vs else v # insert_sorted u vs)"

definition sort_stage :: "user list \<Rightarrow> user list" where
  "sort_stage us = foldr insert_sorted us []"

text \<open>
  \<^verbatim>\<open>$project\<close>: \<^verbatim>\<open>_id\<close> is kept, \<open>user_id\<close> is a copy of it, the fields marked 1 are
  kept where present. \<^verbatim>\<open>$eq\<close> of a missing field and 0 is false, and \<^verbatim>\<open>$divide\<close> is
  null when an operand is missing or null; the quotient of two numbers is a double.
\<close>

record leaderboard_entry =
  lb_id :: string
  lb_user_id :: string
  lb_username :: "string option"
  lb_total_winnings :: "rat option"
  lb_total_games :: "int option"
  win_rate :: "rat option"
  lb_rank :: "nat option"

definition divide_expr :: "(rat \<Rightarrow> rat) \<Rightarrow> int option \<Rightarrow> int option \<Rightarrow> rat option" where
  "divide_expr to_float a b =
     (case (a, b) of
        (Some x, Some y) \<Rightarrow> Some (to_float (of_int x / of_int y))
      | _ \<Rightarrow> None)"

definition project_stage :: "(rat \<Rightarrow> rat) \<Rightarrow> user \<Rightarrow> leaderboard_entry" where
  "project_stage to_float u =
     \<lparr>lb_id = u_id u, lb_user_id = u_id u, lb_username = username u,
      lb_total_winnings = total_winnings u, lb_total_games = total_games u,
      win_rate = (if total_games u = Some 0 then Some 0
                  else divide_expr to_float (total_wins u) (total_games u)),
      lb_rank = None\<rparr>"

definition get_global_leaderboard ::
    "(rat \<Rightarrow> rat) \<Rightarrow> int \<Rightarrow> db \<Rightarrow> string \<Rightarrow> nat \<Rightarrow> leaderboard_entry list" where
  "get_global_leaderboard to_float now d period limit =
     (let leaderboard =
            map (project_stage to_float)
              (take limit (sort_stage (match_stage (date_filter period now) (users d))))
      in map (\<lambda>(i, user). user\<lparr>lb_rank := Some (i + 1)\<rparr>) (enumerate 0 leaderboard))"

subsection \<open>server.py: the payout calculator\<close>

definition calculate_payout :: "Settings \<Rightarrow> rat \<Rightarrow> int \<Rightarrow> int \<Rightarrow> rat" where
  "calculate_payout settings bet_amount rank total_players =
     (if rank = 1
      then Decimal_mul (Decimal_mul bet_amount (18 / 10))
             (Decimal_sub 1 (HOUSE_EDGE settings))
      else if rank \<le> 3 then bet_amount
      else 0)"

subsection \<open>server.py: the handlers\<close>

text \<open>
  What a request takes from outside the program: the conversion \<^verbatim>\<open>float\<close>, the
  successive readings of the clock and values of \<^verbatim>\<open>uuid4\<close> (numbered in the order
  the handler takes them), and the draws of \<^verbatim>\<open>random\<close>.
\<close>

record env =
  to_float :: "rat \<Rightarrow> rat"
  utcnow :: "nat \<Rightarrow> int"
  uuid4 :: "nat \<Rightarrow> string"
  random_referral_code :: string
  random_other_players :: "player list"
  random_total_players :: int


definition join_game ::
    "env \<Rightarrow> db \<Rightarrow> AuthenticatedUser \<Rightarrow> BetRequest \<Rightarrow> (error + GameSession) \<times> db" where
  "join_game E d user bet_request =
     (case get_user_by_privy_id d (au_user_id user) of
        None \<Rightarrow> (Inl (HTTPException 404 ''User not found''), d)
      | Some db_user \<Rightarrow>
          let current_balance = dict_get (balance db_user) 0 in
          if current_balance < req_bet_amount bet_request
          then (Inl (HTTPException 400 ''Insufficient balance''), d)
          else
            let new_balance = Decimal_sub current_balance (req_bet_amount bet_request);
                d1 = update_user_balance (to_float E) d (u_id db_user) new_balance (utcnow E 0)
            in (case create_game_session d1 (u_id db_user) (req_game_type bet_request)
                      (to_float E (req_bet_amount bet_request)) (req_appearance bet_request)
                      (uuid4 E 0) (utcnow E 1) of
                 Inl e \<Rightarrow> (Inl e, d1)
               | Inr (game_session, d2) \<Rightarrow>
                   (case create_transaction d2 (u_id db_user) ''bet''
                           (to_float E (req_bet_amount bet_request)) (Some ''completed'')
                           (s_id game_session)
                           [(''game_type'', MStr (req_game_type bet_request))]
                           (uuid4 E 1) (utcnow E 2) of
                      Inl e \<Rightarrow> (Inl e, d2)
                    | Inr (_, d3) \<Rightarrow>
                        (Inr \<lparr>game_session_id = s_id game_session,
                              gs_bet_amount = req_bet_amount bet_request,
                              gs_new_balance = new_balance, game_state = ''active'',
                              other_players = random_other_players E\<rparr>, d3))))"

definition end_game ::
    "Settings \<Rightarrow> env \<Rightarrow> db \<Rightarrow> AuthenticatedUser \<Rightarrow> GameEnd \<Rightarrow> (error + GameResult) \<times> db" where
  "end_game settings E d user game_end =
     (case get_user_by_privy_id d (au_user_id user) of
        None \<Rightarrow> (Inl (HTTPException 404 ''User not found''), d)
      | Some db_user \<Rightarrow>
          (case find (\<lambda>s. s_id s = ge_game_session_id game_end) (game_sessions d) of
             None \<Rightarrow> (Inl (HTTPException 404 ''Game session not found''), d)
           | Some session \<Rightarrow>
               if s_user_id session \<noteq> u_id db_user
               then (Inl (HTTPException 404 ''Game session not found''), d)
               else
                 let bet_amount = s_bet_amount session;
                     total_players = random_total_players E;
                     payout = calculate_payout settings bet_amount (ge_final_rank game_end)
                                total_players;
                     current_balance = dict_get (balance db_user) 0;
                     new_balance = Decimal_add current_balance payout;
                     d1 = update_user_balance (to_float E) d (u_id db_user) new_balance
                            (utcnow E 0);
                     d2 = update_game_session d1 (ge_game_session_id game_end)
                            (\<lambda>s. s\<lparr>s_final_score := Some (ge_final_score game_end),
                                   s_final_rank := Some (ge_final_rank game_end),
                                   s_payout := Some (to_float E payout),
                                   s_status := ''completed'',
                                   s_ended_at := Some (utcnow E 1)\<rparr>);
                     d3 = update_user d2 (u_id db_user)
                            (\<lambda>u. u\<lparr>total_games := Some (dict_get (total_games db_user) 0 + 1),
                                   total_winnings :=
                                     Some (to_float E
                                            (Decimal_add (dict_get (total_winnings db_user) 0)
                                               payout))\<rparr>)
                            (utcnow E 2);
                     result = \<lparr>gr_payout = payout, gr_new_balance = new_balance,
                               gr_rank = ge_final_rank game_end,
                               gr_total_players = total_players,
                               game_result =
                                 (if ge_final_rank game_end \<le> 3 then ''win'' else ''loss'')\<rparr>
                 in if payout > 0
                    then (case create_transaction d3 (u_id db_user) ''payout''
                                 (to_float E payout) (Some ''completed'')
                                 (ge_game_session_id game_end)
                                 [(''rank'', MInt (ge_final_rank game_end)),
                                  (''total_players'', MInt total_players),
                                  (''score'', MInt (ge_final_score game_end))]
                                 (uuid4 E 0) (utcnow E 3) of
                            Inl e \<Rightarrow> (Inl e, d3)
                          | Inr (_, d4) \<Rightarrow> (Inr result, d4))
                    else (Inr result, d3)))"

subsection \<open>Example states\<close>

text \<open>
  Two users, Alice with balance 1 and Bob with balance 0.3, and an environment whose
  \<open>to_float\<close> is exact (every amount below has at most four digits).
\<close>

definition example_env :: env where
  "example_env =
     \<lparr>to_float = (\<lambda>x. x), utcnow = (\<lambda>k. 1700000000000 + int k),
      uuid4 = (\<lambda>k. if k = 0 then ''uuid-0'' else ''uuid-1''),
      random_referral_code = ''AB12CD34'', random_other_players = [],
      random_total_players = 9\<rparr>"

definition alice :: user where
  "alice =
     \<lparr>u_id = ''user-a'', privy_user_id = ''did:privy:alice'', email = None,
      wallet_address = None, balance = Some 1, total_games = Some 0,
      total_winnings = Some 0, total_wins = None, referral_code = Some ''ALICE001'',
      referred_by = None, username = None, display_name = None, u_appearance = None,
      u_created_at = Some 1690000000000, updated_at = Some 1690000000000\<rparr>"

definition bob :: user where
  "bob =
     \<lparr>u_id = ''user-b'', privy_user_id = ''did:privy:bob'', email = None,
      wallet_address = None, balance = Some (3 / 10), total_games = Some 0,
      total_winnings = Some 0, total_wins = None, referral_code = Some ''BOB00001'',
      referred_by = None, username = None, display_name = None, u_appearance = None,
      u_created_at = Some 1699999999000, updated_at = Some 1699999999000\<rparr>"

definition example_db :: db where
  "example_db = \<lparr>users = [alice, bob], game_sessions = [], transactions = [], affiliates = []\<rparr>"

definition auth_alice :: AuthenticatedUser where
  "auth_alice = \<lparr>au_user_id = ''did:privy:alice'', au_app_id = ''app'', au_email = None,
                  au_wallet_address = None\<rparr>"

definition auth_bob :: AuthenticatedUser where
  "auth_bob = \<lparr>au_user_id = ''did:privy:bob'', au_app_id = ''app'', au_email = None,
                au_wallet_address = None\<rparr>"

definition example_bet :: BetRequest where
  "example_bet = \<lparr>req_bet_amount = 1 / 2, req_game_type = ''skill_match'',
                   req_appearance = None\<rparr>"

text \<open>The state after Alice has joined with \<open>example_bet\<close>, and an end of that game.\<close>

definition alice_joined :: user where
  "alice_joined = alice\<lparr>balance := Some (1 / 2), updated_at := Some 1700000000000\<rparr>"

definition example_session :: game_session where
  "example_session =
     \<lparr>s_id = ''uuid-0'', s_user_id = ''user-a'', s_game_type = ''skill_match'',
      s_bet_amount = 1 / 2, s_appearance = None, s_created_at = 1700000000001,
      s_status = ''active'', s_final_score = None, s_final_rank = None,
      s_payout = None, s_ended_at = None\<rparr>"

definition example_bet_txn :: txn where
  "example_bet_txn =
     \<lparr>t_id = ''uuid-1'', t_user_id = ''user-a'', t_type = ''bet'', t_amount = 1 / 2,
      t_status = ''completed'', t_reference_id = ''uuid-0'',
      t_metadata = [(''game_type'', MStr ''skill_match'')],
      t_created_at = 1700000000002\<rparr>"

definition example_db_joined :: db where
  "example_db_joined =
     \<lparr>users = [alice_joined, bob], game_sessions = [example_session],
      transactions = [example_bet_txn], affiliates = []\<rparr>"

definition example_env_end :: env where
  "example_env_end =
     \<lparr>to_float = (\<lambda>x. x), utcnow = (\<lambda>k. 1700000060000 + int k),
      uuid4 = (\<lambda>k. ''uuid-2''),
      random_referral_code = ''EF56GH78'', random_other_players = [],
      random_total_players = 9\<rparr>"

definition example_env_end_again :: env where
  "example_env_end_again =
     \<lparr>to_float = (\<lambda>x. x), utcnow = (\<lambda>k. 1700000120000 + int k),
      uuid4 = (\<lambda>k. ''uuid-3''),
      random_referral_code = ''IJ90KL12'', random_other_players = [],
      random_total_players = 12\<rparr>"

definition example_game_end :: GameEnd where
  "example_game_end =
     \<lparr>ge_game_session_id = ''uuid-0'', ge_final_score = 42, ge_final_rank = 1\<rparr>"

text \<open>The state after that game has been ended once.\<close>

definition example_db_ended :: db where
  "example_db_ended =
     snd (end_game default_settings example_env_end example_db_joined auth_alice
            example_game_end)"







text \<open>
  A leaderboard of four users, created 1 hour, 2 hours, 10 days and 40 days before
  the clock reading \<open>example_now\<close>; the last has no \<open>total_wins\<close>.
\<close>

definition board_user :: "string \<Rightarrow> rat \<Rightarrow> int \<Rightarrow> int option \<Rightarrow> int \<Rightarrow> user" where
  "board_user name winnings games wins created =
     \<lparr>u_id = name, privy_user_id = ''did:privy:'' @ name, email = None,
      wallet_address = None, balance = Some 0, total_games = Some games,
      total_winnings = Some winnings, total_wins = wins, referral_code = None,
      referred_by = None, username = None, display_name = None, u_appearance = None,
      u_created_at = Some created, updated_at = Some created\<rparr>"

definition example_now :: int where
  "example_now = 1700000000000"

definition example_board_db :: db where
  "example_board_db =
     \<lparr>users = [board_user ''gina'' 5 10 (Some 4) (1700000000000 - 3600000),
               board_user ''dave'' 5 12 (Some 3) (1700000000000 - 7200000),
               board_user ''erin'' 7 0 (Some 0) (1700000000000 - 864000000),
               board_user ''frank'' 9 3 None (1700000000000 - 3456000000)],
      game_sessions = [], transactions = [], affiliates = []\<rparr>"

text \<open>A bet of 0.0005, below the configured minimum of 0.001.\<close>

definition small_bet_input :: BetRequest_input where
  "small_bet_input =
     \<lparr>in_bet_amount = \<lparr>negative = False, coefficient = 5, exponent = - 4\<rparr>,
      in_game_type = ''practice'', in_appearance = None\<rparr>"

text \<open>
  A house edge of 31 decimal places, as the environment may configure it.
\<close>

definition long_edge_settings :: Settings where
  "long_edge_settings =
     default_settings\<lparr>HOUSE_EDGE :=
       200000000000000000000000000001 / 10000000000000000000000000000000\<rparr>"








text \<open>
  Hana was created 40 days before \<open>example_now\<close> and her document was last written
  one minute before it.
\<close>

definition hana :: user where
  "hana =
     (board_user ''hana'' 9 3 None (1700000000000 - 3456000000))
       \<lparr>updated_at := Some (1700000000000 - 60000)\<rparr>"

definition example_returning_db :: db where
  "example_returning_db =
     \<lparr>users = [hana], game_sessions = [], transactions = [], affiliates = []\<rparr>"

section \<open>Properties\<close>

lemmas example_defs = example_env_def alice_def bob_def example_db_def auth_alice_def
  auth_bob_def example_bet_def alice_joined_def example_session_def example_bet_txn_def
  example_db_joined_def example_env_end_def example_env_end_again_def example_game_end_def

subsection \<open>Decimal arithmetic\<close>

lemma num_digits_upper: "n < 10 ^ num_digits n"
proof (induction n rule: num_digits.induct)
  case (1 n)
  show ?case
  proof (cases "n < 10")
    case True
    then show ?thesis by (subst num_digits.simps) simp
  next
    case False
    with 1 have "n div 10 < 10 ^ num_digits (n div 10)" by simp
    then have "n < 10 * 10 ^ num_digits (n div 10)" by linarith
    with False show ?thesis by (subst num_digits.simps) simp
  qed
qed

lemma num_digits_pos: "0 < num_digits n"
  by (subst num_digits.simps) simp

lemma num_digits_lower: "0 < n \<Longrightarrow> 10 ^ (num_digits n - 1) \<le> n"
proof (induction n rule: num_digits.induct)
  case (1 n)
  show ?case
  proof (cases "n < 10")
    case True
    with 1 show ?thesis by (subst num_digits.simps) simp
  next
    case False
    then have "0 < n div 10" by simp
    with 1 False have "10 ^ (num_digits (n div 10) - 1) \<le> n div 10" by simp
    then have "10 * 10 ^ (num_digits (n div 10) - 1) \<le> n" by linarith
    moreover have "num_digits n = Suc (num_digits (n div 10))"
      using False by (subst num_digits.simps) simp
    moreover have "10 * 10 ^ (num_digits (n div 10) - 1) = (10::nat) ^ num_digits (n div 10)"
      using num_digits_pos [of "n div 10"] by (cases "num_digits (n div 10)") simp_all
    ultimately show ?thesis by simp
  qed
qed

lemma num_digits_numeral [simp]:
  "num_digits (numeral v) =
     (if (numeral v :: nat) < 10 then 1 else Suc (num_digits (numeral v div 10)))"
  by (subst num_digits.simps) simp

lemma num_digits_small [simp]: "num_digits 0 = 1" "num_digits 1 = 1" "num_digits (Suc 0) = 1"
  by (simp_all add: num_digits.simps)

lemma floor_rat_numeral [simp]:
  "\<lfloor>numeral a / numeral b :: rat\<rfloor> = numeral a div numeral b"
  using floor_divide_of_int_eq [of "numeral a" "numeral b", where ?'a = rat] by simp

lemma round_half_even_of_int: "round_half_even (of_int z) = z"
  by (simp add: round_half_even_def)

text \<open>After scaling, exactly 28 digits stand before the point.\<close>

lemma scaled_bounds:
  assumes "0 < a"
  defines "y \<equiv> a * 10 ^ scale_exponent a"
  shows "10 ^ 27 \<le> y / 10 ^ excess_digits y" and "y / 10 ^ excess_digits y < 10 ^ 28"
proof -
  define n where "n = nat \<lfloor>y\<rfloor>"
  define k where "k = excess_digits y"
  have "1 / a \<le> of_int \<lceil>1 / a\<rceil>" by (rule le_of_int_ceiling)
  also have "of_int \<lceil>1 / a\<rceil> = (of_nat (nat \<lceil>1 / a\<rceil>) :: rat)"
    using assms(1) by simp
  also have "\<dots> < of_nat (10 ^ num_digits (nat \<lceil>1 / a\<rceil>))"
    using num_digits_upper [of "nat \<lceil>1 / a\<rceil>"] by (simp only: of_nat_less_iff)
  finally have "1 / a < 10 ^ num_digits (nat \<lceil>1 / a\<rceil>)" by simp
  with assms(1) have "1 < a * 10 ^ num_digits (nat \<lceil>1 / a\<rceil>)"
    by (simp add: field_simps)
  then have "10 ^ 27 * 1 < 10 ^ 27 * (a * 10 ^ num_digits (nat \<lceil>1 / a\<rceil>))"
    by (intro mult_strict_left_mono) simp_all
  then have y27: "10 ^ 27 < y"
    by (simp add: y_def scale_exponent_def power_add mult_ac)
  then have "(10::int) ^ 27 \<le> \<lfloor>y\<rfloor>"
    by (simp add: le_floor_iff)
  then have n27: "10 ^ 27 \<le> n"
    unfolding n_def by (metis nat_mono nat_numeral nat_power_eq zero_le_numeral)
  then have npos: "0 < n" by (meson less_le_trans zero_less_numeral zero_less_power)
  have lt: "(10::nat) ^ 27 < 10 ^ num_digits n"
    using n27 num_digits_upper [of n] by linarith
  have "27 < num_digits n"
    by (rule power_less_imp_less_exp [OF _ lt]) simp
  then have kD: "num_digits n = 28 + k" "num_digits n - 1 = 27 + k"
    by (simp_all add: k_def excess_digits_def n_def)
  have "0 \<le> \<lfloor>y\<rfloor>" using y27 by simp
  then have "(of_nat n :: rat) = of_int \<lfloor>y\<rfloor>" by (simp add: n_def)
  then have ny: "of_nat n \<le> y" "y < of_nat n + 1"
    by linarith+
  have "10 ^ (27 + k) \<le> n"
    using num_digits_lower [OF npos] by (simp only: kD(2))
  then have "of_nat (10 ^ (27 + k)) \<le> (of_nat n :: rat)"
    by (simp only: of_nat_le_iff)
  then have "(10::rat) ^ (27 + k) \<le> of_nat n"
    by (simp only: of_nat_power of_nat_numeral)
  with ny(1) have lo: "10 ^ (27 + k) \<le> y" by linarith
  have "n < 10 ^ (28 + k)"
    using num_digits_upper [of n] by (simp only: kD(1))
  then have "n + 1 \<le> 10 ^ (28 + k)" by simp
  then have "(of_nat (n + 1) :: rat) \<le> of_nat (10 ^ (28 + k))"
    by (simp only: of_nat_le_iff)
  then have "(of_nat n :: rat) + 1 \<le> 10 ^ (28 + k)"
    by (simp only: of_nat_power of_nat_numeral of_nat_add of_nat_1)
  with ny(2) have hi: "y < 10 ^ (28 + k)" by linarith
  show "10 ^ 27 \<le> y / 10 ^ excess_digits y"
    using lo by (simp add: k_def [symmetric] power_add field_simps)
  show "y / 10 ^ excess_digits y < 10 ^ 28"
    using hi by (simp add: k_def [symmetric] power_add field_simps)
qed

lemma same_decade:
  fixes z w :: rat
  assumes "z * 10 ^ u = w * 10 ^ v"
      and "10 ^ 27 \<le> z" "z < 10 ^ 28" "10 ^ 27 \<le> w" "w < 10 ^ 28"
  shows "u = v"
proof (rule ccontr)
  assume "u \<noteq> v"
  then consider t where "v = u + Suc t" | t where "u = v + Suc t"
    by (metis add_Suc_right less_imp_Suc_add linorder_neqE_nat)
  then show False
  proof cases
    case 1
    with assms(1) have "z * 10 ^ u = (w * 10 ^ Suc t) * 10 ^ u"
      by (simp add: power_add mult_ac)
    then have "z = w * 10 ^ Suc t" by simp
    moreover have "w * 10 \<le> w * 10 ^ Suc t"
      using assms(4) by (intro mult_left_mono) (simp_all add: self_le_power)
    ultimately show False using assms(3,4) by simp
  next
    case 2
    with assms(1) have "(z * 10 ^ Suc t) * 10 ^ v = w * 10 ^ v"
      by (simp add: power_add mult_ac)
    then have "z * 10 ^ Suc t = w" by simp
    moreover have "z * 10 \<le> z * 10 ^ Suc t"
      using assms(2) by (intro mult_left_mono) (simp_all add: self_le_power)
    ultimately show False using assms(2,5) by simp
  qed
qed

text \<open>Rounding a value whose digits, scaled to 28 before the point, are those of \<open>w\<close>.\<close>

lemma context_round_eqI:
  assumes "\<bar>x\<bar> * 10 ^ p = w * 10 ^ q" and "10 ^ 27 \<le> w" and "w < 10 ^ 28"
  shows "context_round x = sgn x * of_int (round_half_even w) * 10 ^ q / 10 ^ p"
proof -
  define a where "a = \<bar>x\<bar>"
  define s where "s = scale_exponent a"
  define y where "y = a * 10 ^ s"
  define k where "k = excess_digits y"
  define z where "z = y / 10 ^ k"
  have "0 < w" using assms(2) by (rule less_le_trans [rotated]) simp
  with assms(1) have x: "x \<noteq> 0" by auto
  then have a: "0 < a" by (simp add: a_def)
  have z: "10 ^ 27 \<le> z" "z < 10 ^ 28"
    using scaled_bounds [OF a] by (simp_all add: z_def k_def y_def s_def)
  have "z * 10 ^ (k + p) = (a * 10 ^ p) * 10 ^ s"
    by (simp add: z_def y_def power_add field_simps)
  also have "\<dots> = w * 10 ^ (q + s)"
    using assms(1) by (simp add: a_def power_add mult_ac)
  finally have eq: "z * 10 ^ (k + p) = w * 10 ^ (q + s)" .
  then have kp: "k + p = q + s"
    using z assms(2,3) by (rule same_decade)
  with eq have zw: "z = w" by simp
  have "(10::rat) ^ k * 10 ^ p = 10 ^ q * 10 ^ s"
    using kp by (simp add: power_add [symmetric])
  then have ratio: "(10::rat) ^ k / 10 ^ s = 10 ^ q / 10 ^ p"
    by (simp add: field_simps)
  have "context_round x = sgn x * of_int (round_half_even z) * (10 ^ k / 10 ^ s)"
    using x by (simp add: context_round_def Let_def z_def k_def y_def s_def a_def)
  then show ?thesis by (simp add: zw ratio)
qed

text \<open>A value of at most 28 significant digits is not changed.\<close>

lemma context_round_exact:
  assumes "fits_context x"
  shows "context_round x = x"
proof (cases "x = 0")
  case True
  then show ?thesis by (simp add: context_round_def)
next
  case False
  define a where "a = \<bar>x\<bar>"
  define s where "s = scale_exponent a"
  define y where "y = a * 10 ^ s"
  define k where "k = excess_digits y"
  define z where "z = y / 10 ^ k"
  from False have a: "0 < a" by (simp add: a_def)
  from assms obtain c p q where c: "c < (10::nat) ^ 28" and cpq: "a * 10 ^ p = of_nat c * 10 ^ q"
    by (auto simp: fits_context_def a_def)
  have z_lo: "10 ^ 27 \<le> z"
    using scaled_bounds(1) [OF a] by (simp add: z_def k_def y_def s_def)
  have zeq: "z * 10 ^ (k + p) = of_nat c * 10 ^ (q + s)"
    using cpq by (simp add: z_def y_def power_add field_simps)
  have "\<exists>m::int. z = of_int m"
  proof (cases "k + p \<le> q + s")
    case True
    then obtain t where t: "q + s = k + p + t" by (auto simp: le_iff_add)
    from zeq have "z * 10 ^ (k + p) = (of_nat c * 10 ^ t) * 10 ^ (k + p)"
      by (simp add: t power_add mult_ac)
    then have "z = of_nat c * 10 ^ t" by simp
    then have "z = of_int (int c * 10 ^ t)" by simp
    then show ?thesis ..
  next
    case False
    then obtain t where t: "k + p = q + s + Suc t"
      by (metis add_Suc_right less_imp_Suc_add not_le)
    from zeq have "(z * 10 ^ Suc t) * 10 ^ (q + s) = of_nat c * 10 ^ (q + s)"
      by (simp add: t power_add mult_ac)
    then have "z * 10 ^ Suc t = of_nat c" by simp
    moreover have "(of_nat c :: rat) < of_nat (10 ^ 28)"
      using c by (simp only: of_nat_less_iff)
    ultimately have "z * 10 ^ Suc t < 10 ^ 28" by simp
    moreover have "z * 10 \<le> z * 10 ^ Suc t"
      using z_lo by (intro mult_left_mono) (simp_all add: self_le_power)
    ultimately have "z < 10 ^ 27" by simp
    with z_lo show ?thesis by simp
  qed
  then obtain m :: int where m: "z = of_int m" ..
  have "context_round x = sgn x * of_int (round_half_even z) * 10 ^ k / 10 ^ s"
    using False
    by (simp add: context_round_def Let_def z_def k_def y_def s_def a_def)
  also have "\<dots> = sgn x * z * 10 ^ k / 10 ^ s"
    by (simp add: m round_half_even_of_int)
  also have "\<dots> = sgn x * a"
    by (simp add: z_def y_def)
  also have "\<dots> = x"
    by (simp add: a_def mult_sgn_abs)
  finally show ?thesis .
qed

lemma fits_contextI:
  "\<bar>x\<bar> * 10 ^ p = of_nat c * 10 ^ q \<Longrightarrow> c < 10 ^ 28 \<Longrightarrow> fits_context x"
  by (auto simp: fits_context_def)

text \<open>In particular an amount of at most 9 decimal places below \<open>10 ^ 19\<close>.\<close>

lemma context_round_decimal:
  assumes "of_int \<lfloor>x * 10 ^ 9\<rfloor> = x * 10 ^ 9" and "\<bar>x\<bar> < 10 ^ 19"
  shows "context_round x = x"
proof (rule context_round_exact, rule fits_contextI)
  have "\<bar>x\<bar> * 10 ^ 9 = \<bar>x * 10 ^ 9\<bar>" by (simp add: abs_mult)
  also have "\<dots> = \<bar>of_int \<lfloor>x * 10 ^ 9\<rfloor>\<bar>" by (simp only: assms(1))
  also have "\<dots> = of_nat (nat \<bar>\<lfloor>x * 10 ^ 9\<rfloor>\<bar>)" by simp
  finally show "\<bar>x\<bar> * 10 ^ 9 = of_nat (nat \<bar>\<lfloor>x * 10 ^ 9\<rfloor>\<bar>) * 10 ^ 0" by simp
  have "\<bar>x * 10 ^ 9\<bar> < 10 ^ 19 * 10 ^ 9"
    using assms(2) by (simp add: abs_mult)
  then have "\<bar>of_int \<lfloor>x * 10 ^ 9\<rfloor> :: rat\<bar> < 10 ^ 28" by (simp only: assms(1)) simp
  then have "\<bar>\<lfloor>x * 10 ^ 9\<rfloor>\<bar> < 10 ^ 28"
    by (metis of_int_abs of_int_less_iff of_int_numeral of_int_power)
  then show "nat \<bar>\<lfloor>x * 10 ^ 9\<rfloor>\<bar> < 10 ^ 28"
    by (metis nat_less_numeral_power_cancel_iff)
qed

lemmas decimal_eval = Decimal_add_def Decimal_sub_def Decimal_mul_def context_round_decimal

subsection \<open>Payout calculator\<close>

text \<open>
  C1 (as the code has it). At rank 1 the payout calculator returns
  \<open>bet_amount \<times> 1.8 \<times> (1 - house_edge)\<close> as Decimal arithmetic computes it: the
  difference and each of the two products rounded to 28 significant digits. This is
  the exact product whenever \<open>bet_amount \<times> 1.8\<close>, \<open>1 - house_edge\<close> and their
  product have at most 28 significant digits each. At ranks 2 and 3 it returns the bet
  amount itself, and 0 at every rank above 3.
\<close>

theorem calculate_payout_by_rank:
  "calculate_payout settings bet_amount 1 n
     = context_round (context_round (bet_amount * (18 / 10))
                       * context_round (1 - HOUSE_EDGE settings))
   \<and> (fits_context (bet_amount * (18 / 10)) \<and> fits_context (1 - HOUSE_EDGE settings)
        \<and> fits_context (bet_amount * (18 / 10) * (1 - HOUSE_EDGE settings))
       \<longrightarrow> calculate_payout settings bet_amount 1 n
             = bet_amount * (18 / 10) * (1 - HOUSE_EDGE settings))
   \<and> (rank = 2 \<or> rank = 3 \<longrightarrow> calculate_payout settings bet_amount rank n = bet_amount)
   \<and> (3 < rank \<longrightarrow> calculate_payout settings bet_amount rank n = 0)"
  by (auto simp: calculate_payout_def Decimal_mul_def Decimal_sub_def context_round_exact)

theorem calculate_payout_by_rank_witness:
  "fits_context (1 / 2 * (18 / 10)) \<and> fits_context (1 - HOUSE_EDGE default_settings)
   \<and> fits_context (1 / 2 * (18 / 10) * (1 - HOUSE_EDGE default_settings))
   \<and> calculate_payout default_settings (1 / 2) 1 9 = 882 / 1000
   \<and> calculate_payout default_settings (1 / 2) 2 9 = 1 / 2
   \<and> calculate_payout default_settings (1 / 2) 4 9 = 0"
proof -
  have f: "fits_context (1 / 2 * (18 / 10))"
    "fits_context (1 - HOUSE_EDGE default_settings)"
    "fits_context (1 / 2 * (18 / 10) * (1 - HOUSE_EDGE default_settings))"
    by (rule fits_contextI [of _ 3 _ 0], simp add: default_settings_def, simp)+
  from calculate_payout_by_rank [of default_settings "1 / 2" 9 2] f
  have "calculate_payout default_settings (1 / 2) 1 9 = 882 / 1000"
    "calculate_payout default_settings (1 / 2) 2 9 = 1 / 2"
    by (simp_all add: default_settings_def)
  moreover from calculate_payout_by_rank [of default_settings "1 / 2" 9 4]
  have "calculate_payout default_settings (1 / 2) 4 9 = 0"
    by simp
  ultimately show ?thesis using f by (intro conjI)
qed

text \<open>
  The claim as written fails when a result has more than 28 digits. With the house
  edge 0.0200000000000000000000000000001 the difference \<open>1 - house_edge\<close> is rounded
  to 0.98, and a bet of 0.5 at rank 1 pays 0.882, which is not \<open>0.5 \<times> 1.8\<close> times
  \<open>1 - house_edge\<close>.
\<close>

theorem calculate_payout_rounds_counterexample:
  "0 \<le> HOUSE_EDGE long_edge_settings \<and> HOUSE_EDGE long_edge_settings < 1
   \<and> calculate_payout long_edge_settings (1 / 2) 1 9 = 882 / 1000
   \<and> 1 / 2 * (18 / 10) * (1 - HOUSE_EDGE long_edge_settings)
       = 88199999999999999999999999999991 / 100000000000000000000000000000000
   \<and> calculate_payout long_edge_settings (1 / 2) 1 9
       \<noteq> 1 / 2 * (18 / 10) * (1 - HOUSE_EDGE long_edge_settings)"
proof -
  have r: "round_half_even (9799999999999999999999999999999 / 1000)
        = 9800000000000000000000000000"
    by (simp add: round_half_even_def Let_def)
  have "context_round (1 - 200000000000000000000000000001 / 10000000000000000000000000000000)
      = sgn (1 - 200000000000000000000000000001 / 10000000000000000000000000000000 :: rat)
        * of_int (round_half_even (9799999999999999999999999999999 / 1000))
        * 10 ^ 0 / 10 ^ 28"
    by (rule context_round_eqI) simp_all
  then have e: "context_round
       (9799999999999999999999999999999 / 10000000000000000000000000000000) = 49 / 50"
    unfolding r by simp
  show ?thesis
    by (simp add: calculate_payout_def long_edge_settings_def default_settings_def
        Decimal_mul_def Decimal_sub_def e context_round_decimal)
qed

text \<open>
  C9. The number of players does not enter the payout: any two values of
  \<open>total_players\<close> give the same amount.
\<close>

theorem calculate_payout_total_players_unused:
  "calculate_payout settings bet_amount rank n = calculate_payout settings bet_amount rank m"
  by (simp add: calculate_payout_def)

subsection \<open>Collections: lookups after an update\<close>

lemma find_update_one_same:
  "find P (update_one P f xs) = map_option f (find P xs)" if "\<And>x. P x \<Longrightarrow> P (f x)"
  using that by (induction xs) auto

lemma find_update_one_key:
  assumes "distinct (map key xs)" and "find P xs = Some u" and "\<And>x. P (f x) = P x"
  shows "find P (update_one (\<lambda>x. key x = key u) f xs) = Some (f u)"
  using assms(1,2)
proof (induction xs)
  case Nil
  then show ?case by simp
next
  case (Cons x xs)
  show ?case
  proof (cases "P x")
    case True
    with Cons.prems have "u = x" by simp
    with True show ?thesis by (simp add: assms(3))
  next
    case False
    with Cons.prems have f: "find P xs = Some u" by simp
    then have "u \<in> set xs" by (auto simp: find_Some_iff)
    with Cons.prems have "key x \<noteq> key u" by auto
    with False f Cons show ?thesis by simp
  qed
qed

lemma map_key_update_one:
  "map key (update_one Q f xs) = map key xs" if "\<And>x. key (f x) = key x"
  using that by (induction xs) auto

lemma update_one_twice:
  "update_one Q g (update_one Q f xs) = update_one Q (\<lambda>x. g (f x)) xs" if "\<And>x. Q (f x) = Q x"
  using that by (induction xs) auto

subsection \<open>Joining a game\<close>

text \<open>
  C2. When the user's balance is strictly below the requested bet, join fails with the
  HTTP 400 error \<open>Insufficient balance\<close> and returns the database as it was (no
  balance change, no session, no transaction). Join reports that error only when the
  balance is below the bet; with a balance of at least the bet (also one equal to it)
  and fresh identifiers, join succeeds.
\<close>

theorem join_game_insufficient_balance:
  assumes "get_user_by_privy_id d (au_user_id user) = Some db_user"
  shows "(dict_get (balance db_user) 0 < req_bet_amount bet_request
            \<longrightarrow> join_game E d user bet_request
                  = (Inl (HTTPException 400 ''Insufficient balance''), d))
       \<and> (fst (join_game E d user bet_request) = Inl (HTTPException 400 ''Insufficient balance'')
            \<longrightarrow> dict_get (balance db_user) 0 < req_bet_amount bet_request)
       \<and> (req_bet_amount bet_request \<le> dict_get (balance db_user) 0
            \<and> uuid4 E 0 \<notin> set (map s_id (game_sessions d))
            \<and> uuid4 E 1 \<notin> set (map t_id (transactions d))
            \<longrightarrow> (\<exists>response. fst (join_game E d user bet_request) = Inr response))"
  using assms
  by (auto simp: join_game_def Let_def create_game_session_def create_transaction_def
      game_sessions_insert_one_def transactions_insert_one_def update_user_balance_def
      split: sum.splits prod.splits)

theorem join_game_insufficient_balance_witness:
  "get_user_by_privy_id example_db (au_user_id auth_bob) = Some bob
   \<and> dict_get (balance bob) 0 = 3 / 10 \<and> req_bet_amount example_bet = 1 / 2
   \<and> join_game example_env example_db auth_bob example_bet
       = (Inl (HTTPException 400 ''Insufficient balance''), example_db)
   \<and> (\<exists>response. fst (join_game example_env example_db auth_alice
                         (example_bet\<lparr>req_bet_amount := 1\<rparr>)) = Inr response)"
proof -
  have b: "get_user_by_privy_id example_db (au_user_id auth_bob) = Some bob"
    by (simp add: get_user_by_privy_id_def example_defs)
  have a: "get_user_by_privy_id example_db (au_user_id auth_alice) = Some alice"
    by (simp add: get_user_by_privy_id_def example_defs)
  have vb: "dict_get (balance bob) 0 = 3 / 10" "req_bet_amount example_bet = 1 / 2"
    by (simp_all add: dict_get_def example_defs)
  have va: "req_bet_amount (example_bet\<lparr>req_bet_amount := 1\<rparr>) \<le> dict_get (balance alice) 0"
    "uuid4 example_env 0 \<notin> set (map s_id (game_sessions example_db))"
    "uuid4 example_env 1 \<notin> set (map t_id (transactions example_db))"
    by (simp_all add: dict_get_def example_defs)
  from join_game_insufficient_balance [OF b, of example_bet example_env] vb
  have 1: "join_game example_env example_db auth_bob example_bet
       = (Inl (HTTPException 400 ''Insufficient balance''), example_db)" by simp
  from join_game_insufficient_balance [OF a, of "example_bet\<lparr>req_bet_amount := 1\<rparr>" example_env] va
  have 2: "\<exists>response. fst (join_game example_env example_db auth_alice
                         (example_bet\<lparr>req_bet_amount := 1\<rparr>)) = Inr response" by blast
  from b vb 1 2 show ?thesis by blast
qed



lemma example_join:
  "join_game example_env example_db auth_alice example_bet =
     (Inr \<lparr>game_session_id = ''uuid-0'', gs_bet_amount = 1 / 2, gs_new_balance = 1 / 2,
           game_state = ''active'', other_players = []\<rparr>,
      example_db_joined)"
  by (simp add: join_game_def get_user_by_privy_id_def Let_def create_game_session_def
      create_transaction_def game_sessions_insert_one_def transactions_insert_one_def
      update_user_balance_def dict_get_def decimal_eval example_defs)




subsection \<open>Ending a game\<close>

lemma end_game_result:
  assumes "get_user_by_privy_id d (au_user_id user) = Some db_user"
      and "find (\<lambda>s. s_id s = ge_game_session_id game_end) (game_sessions d) = Some session"
      and "s_user_id session = u_id db_user"
      and "p = calculate_payout settings (s_bet_amount session) (ge_final_rank game_end)
                 (random_total_players E)"
      and "0 < p \<longrightarrow> uuid4 E 0 \<notin> set (map t_id (transactions d))"
  shows "end_game settings E d user game_end =
     (Inr \<lparr>gr_payout = p, gr_new_balance = Decimal_add (dict_get (balance db_user) 0) p,
           gr_rank = ge_final_rank game_end, gr_total_players = random_total_players E,
           game_result = (if ge_final_rank game_end \<le> 3 then ''win'' else ''loss'')\<rparr>,
      d\<lparr>users := update_one (\<lambda>u. u_id u = u_id db_user)
           (\<lambda>u. u\<lparr>balance := Some (to_float E (Decimal_add (dict_get (balance db_user) 0) p)),
                  total_games := Some (dict_get (total_games db_user) 0 + 1),
                  total_winnings := Some (to_float E (Decimal_add (dict_get (total_winnings db_user) 0) p)),
                  updated_at := Some (utcnow E 2)\<rparr>) (users d),
        game_sessions := update_one (\<lambda>s. s_id s = ge_game_session_id game_end)
           (\<lambda>s. s\<lparr>s_final_score := Some (ge_final_score game_end),
                  s_final_rank := Some (ge_final_rank game_end),
                  s_payout := Some (to_float E p),
                  s_status := ''completed'',
                  s_ended_at := Some (utcnow E 1)\<rparr>) (game_sessions d),
        transactions := transactions d @
           (if 0 < p
            then [\<lparr>t_id = uuid4 E 0, t_user_id = u_id db_user, t_type = ''payout'',
                   t_amount = to_float E p, t_status = ''completed'',
                   t_reference_id = ge_game_session_id game_end,
                   t_metadata = [(''rank'', MInt (ge_final_rank game_end)),
                                 (''total_players'', MInt (random_total_players E)),
                                 (''score'', MInt (ge_final_score game_end))],
                   t_created_at = utcnow E 3\<rparr>]
            else [])\<rparr>)"
  using assms(1,2,3,5)
  by (simp add: end_game_def Let_def update_user_balance_def update_game_session_def
      update_user_def create_transaction_def transactions_insert_one_def dict_get_def
      update_one_twice assms(4) [symmetric] del: update_one.simps)

lemma end_game_post:
  assumes "distinct (map u_id (users d))"
      and "get_user_by_privy_id d (au_user_id user) = Some db_user"
      and "find (\<lambda>s. s_id s = ge_game_session_id game_end) (game_sessions d) = Some session"
      and "s_user_id session = u_id db_user"
      and "p = calculate_payout settings (s_bet_amount session) (ge_final_rank game_end)
                 (random_total_players E)"
      and "0 < p \<longrightarrow> uuid4 E 0 \<notin> set (map t_id (transactions d))"
  shows "fst (end_game settings E d user game_end) =
           Inr \<lparr>gr_payout = p, gr_new_balance = Decimal_add (dict_get (balance db_user) 0) p,
                gr_rank = ge_final_rank game_end, gr_total_players = random_total_players E,
                game_result = (if ge_final_rank game_end \<le> 3 then ''win'' else ''loss'')\<rparr>"
    and "get_user_by_privy_id (snd (end_game settings E d user game_end)) (au_user_id user) =
           Some (db_user\<lparr>balance := Some (to_float E (Decimal_add (dict_get (balance db_user) 0) p)),
                   total_games := Some (dict_get (total_games db_user) 0 + 1),
                   total_winnings :=
                     Some (to_float E (Decimal_add (dict_get (total_winnings db_user) 0) p)),
                   updated_at := Some (utcnow E 2)\<rparr>)"
    and "find (\<lambda>s. s_id s = ge_game_session_id game_end)
             (game_sessions (snd (end_game settings E d user game_end))) =
           Some (session\<lparr>s_final_score := Some (ge_final_score game_end),
                   s_final_rank := Some (ge_final_rank game_end),
                   s_payout := Some (to_float E p),
                   s_status := ''completed'',
                   s_ended_at := Some (utcnow E 1)\<rparr>)"
    and "transactions (snd (end_game settings E d user game_end)) =
           transactions d @
           (if 0 < p
            then [\<lparr>t_id = uuid4 E 0, t_user_id = u_id db_user, t_type = ''payout'',
                   t_amount = to_float E p, t_status = ''completed'',
                   t_reference_id = ge_game_session_id game_end,
                   t_metadata = [(''rank'', MInt (ge_final_rank game_end)),
                                 (''total_players'', MInt (random_total_players E)),
                                 (''score'', MInt (ge_final_score game_end))],
                   t_created_at = utcnow E 3\<rparr>]
            else [])"
    and "distinct (map u_id (users (snd (end_game settings E d user game_end))))"
proof -
  note R = end_game_result [OF assms(2-6)]
  have u: "find (\<lambda>u. privy_user_id u = au_user_id user)
        (update_one (\<lambda>u. u_id u = u_id db_user)
           (\<lambda>u. u\<lparr>balance := Some (to_float E (Decimal_add (dict_get (balance db_user) 0) p)),
                  total_games := Some (dict_get (total_games db_user) 0 + 1),
                  total_winnings := Some (to_float E (Decimal_add (dict_get (total_winnings db_user) 0) p)),
                  updated_at := Some (utcnow E 2)\<rparr>) (users d))
      = Some (db_user\<lparr>balance := Some (to_float E (Decimal_add (dict_get (balance db_user) 0) p)),
                   total_games := Some (dict_get (total_games db_user) 0 + 1),
                   total_winnings :=
                     Some (to_float E (Decimal_add (dict_get (total_winnings db_user) 0) p)),
                   updated_at := Some (utcnow E 2)\<rparr>)"
    using assms(1,2)
    by (intro find_update_one_key) (simp_all add: get_user_by_privy_id_def)
  show "fst (end_game settings E d user game_end) =
           Inr \<lparr>gr_payout = p, gr_new_balance = Decimal_add (dict_get (balance db_user) 0) p,
                gr_rank = ge_final_rank game_end, gr_total_players = random_total_players E,
                game_result = (if ge_final_rank game_end \<le> 3 then ''win'' else ''loss'')\<rparr>"
    unfolding R by simp
  show "get_user_by_privy_id (snd (end_game settings E d user game_end)) (au_user_id user) =
           Some (db_user\<lparr>balance := Some (to_float E (Decimal_add (dict_get (balance db_user) 0) p)),
                   total_games := Some (dict_get (total_games db_user) 0 + 1),
                   total_winnings :=
                     Some (to_float E (Decimal_add (dict_get (total_winnings db_user) 0) p)),
                   updated_at := Some (utcnow E 2)\<rparr>)"
    unfolding R using u by (simp add: get_user_by_privy_id_def del: update_one.simps)
  show "find (\<lambda>s. s_id s = ge_game_session_id game_end)
             (game_sessions (snd (end_game settings E d user game_end))) =
           Some (session\<lparr>s_final_score := Some (ge_final_score game_end),
                   s_final_rank := Some (ge_final_rank game_end),
                   s_payout := Some (to_float E p),
                   s_status := ''completed'',
                   s_ended_at := Some (utcnow E 1)\<rparr>)"
    unfolding R using assms(3) by (simp add: find_update_one_same del: update_one.simps)
  show "transactions (snd (end_game settings E d user game_end)) =
           transactions d @
           (if 0 < p
            then [\<lparr>t_id = uuid4 E 0, t_user_id = u_id db_user, t_type = ''payout'',
                   t_amount = to_float E p, t_status = ''completed'',
                   t_reference_id = ge_game_session_id game_end,
                   t_metadata = [(''rank'', MInt (ge_final_rank game_end)),
                                 (''total_players'', MInt (random_total_players E)),
                                 (''score'', MInt (ge_final_score game_end))],
                   t_created_at = utcnow E 3\<rparr>]
            else [])"
    unfolding R by simp
  show "distinct (map u_id (users (snd (end_game settings E d user game_end))))"
    unfolding R using assms(1) by (simp add: map_key_update_one del: update_one.simps)
qed






text \<open>
  C5 (as the code has it). End never reads the status of the session. After a first
  end the session is \<open>completed\<close>, and a second end of the same session, for the
  same caller, is accepted like the first: it computes a payout from the stored bet and
  the rank it is given, adds it to the balance the first end left, raises
  \<open>total_games\<close> once more and logs a further \<open>payout\<close> transaction for the same
  session when that payout is positive.
\<close>

theorem end_game_not_guarded:
  assumes "distinct (map u_id (users d))"
      and "get_user_by_privy_id d (au_user_id user) = Some db_user"
      and "find (\<lambda>s. s_id s = ge_game_session_id game_end) (game_sessions d) = Some session"
      and "s_user_id session = u_id db_user"
      and "p = calculate_payout settings (s_bet_amount session) (ge_final_rank game_end)
                 (random_total_players E)"
      and "0 < p \<longrightarrow> uuid4 E 0 \<notin> set (map t_id (transactions d))"
      and "ge_game_session_id game_end' = ge_game_session_id game_end"
      and "p' = calculate_payout settings (s_bet_amount session) (ge_final_rank game_end')
                  (random_total_players E')"
      and "0 < p' \<longrightarrow> uuid4 E' 0 \<notin> set (map t_id (transactions d)) \<and> uuid4 E' 0 \<noteq> uuid4 E 0"
      and "d1 = snd (end_game settings E d user game_end)"
  shows "map_option s_status
           (find (\<lambda>s. s_id s = ge_game_session_id game_end) (game_sessions d1))
           = Some ''completed''
       \<and> fst (end_game settings E' d1 user game_end') =
           Inr \<lparr>gr_payout = p',
                gr_new_balance = Decimal_add (to_float E (Decimal_add (dict_get (balance db_user) 0) p)) p',
                gr_rank = ge_final_rank game_end', gr_total_players = random_total_players E',
                game_result = (if ge_final_rank game_end' \<le> 3 then ''win'' else ''loss'')\<rparr>
       \<and> map_option balance
           (get_user_by_privy_id (snd (end_game settings E' d1 user game_end')) (au_user_id user))
           = Some (Some (to_float E' (Decimal_add (to_float E (Decimal_add (dict_get (balance db_user) 0) p)) p')))
       \<and> map_option total_games
           (get_user_by_privy_id (snd (end_game settings E' d1 user game_end')) (au_user_id user))
           = Some (Some (dict_get (total_games db_user) 0 + 2))
       \<and> transactions (snd (end_game settings E' d1 user game_end')) =
           transactions d @
           (if 0 < p
            then [\<lparr>t_id = uuid4 E 0, t_user_id = u_id db_user, t_type = ''payout'',
                   t_amount = to_float E p, t_status = ''completed'',
                   t_reference_id = ge_game_session_id game_end,
                   t_metadata = [(''rank'', MInt (ge_final_rank game_end)),
                                 (''total_players'', MInt (random_total_players E)),
                                 (''score'', MInt (ge_final_score game_end))],
                   t_created_at = utcnow E 3\<rparr>]
            else []) @
           (if 0 < p'
            then [\<lparr>t_id = uuid4 E' 0, t_user_id = u_id db_user, t_type = ''payout'',
                   t_amount = to_float E' p', t_status = ''completed'',
                   t_reference_id = ge_game_session_id game_end,
                   t_metadata = [(''rank'', MInt (ge_final_rank game_end')),
                                 (''total_players'', MInt (random_total_players E')),
                                 (''score'', MInt (ge_final_score game_end'))],
                   t_created_at = utcnow E' 3\<rparr>]
            else [])"
proof -
  note P = end_game_post [OF assms(1-6), folded assms(10)]
  let ?u = "db_user\<lparr>balance := Some (to_float E (Decimal_add (dict_get (balance db_user) 0) p)),
                   total_games := Some (dict_get (total_games db_user) 0 + 1),
                   total_winnings :=
                     Some (to_float E (Decimal_add (dict_get (total_winnings db_user) 0) p)),
                   updated_at := Some (utcnow E 2)\<rparr>"
  let ?s = "session\<lparr>s_final_score := Some (ge_final_score game_end),
                   s_final_rank := Some (ge_final_rank game_end),
                   s_payout := Some (to_float E p),
                   s_status := ''completed'',
                   s_ended_at := Some (utcnow E 1)\<rparr>"
  have s: "find (\<lambda>s. s_id s = ge_game_session_id game_end') (game_sessions d1) = Some ?s"
    using P(3) by (simp add: assms(7))
  have own: "s_user_id ?s = u_id ?u" using assms(4) by simp
  have p': "p' = calculate_payout settings (s_bet_amount ?s) (ge_final_rank game_end')
                  (random_total_players E')"
    using assms(8) by simp
  have fresh: "0 < p' \<longrightarrow> uuid4 E' 0 \<notin> set (map t_id (transactions d1))"
    using assms(9) by (auto simp: P(4))
  note Q = end_game_post [OF P(5) P(2) s own p' fresh]
  show ?thesis
    using P(3,4) Q(1,2,4) by (simp add: dict_get_def assms(7))
qed

theorem end_game_not_guarded_witness:
  "distinct (map u_id (users example_db_joined))
   \<and> get_user_by_privy_id example_db_joined (au_user_id auth_alice) = Some alice_joined
   \<and> find (\<lambda>s. s_id s = ge_game_session_id example_game_end)
        (game_sessions example_db_joined) = Some example_session
   \<and> s_user_id example_session = u_id alice_joined
   \<and> calculate_payout default_settings (s_bet_amount example_session)
        (ge_final_rank example_game_end) (random_total_players example_env_end) = 882 / 1000
   \<and> calculate_payout default_settings (s_bet_amount example_session)
        (ge_final_rank example_game_end) (random_total_players example_env_end_again)
       = 882 / 1000
   \<and> uuid4 example_env_end 0 \<notin> set (map t_id (transactions example_db_joined))
   \<and> uuid4 example_env_end_again 0 \<notin> set (map t_id (transactions example_db_joined))
   \<and> uuid4 example_env_end_again 0 \<noteq> uuid4 example_env_end 0
   \<and> fst (end_game default_settings example_env_end_again example_db_ended auth_alice
            example_game_end) =
       Inr \<lparr>gr_payout = 882 / 1000, gr_new_balance = 2264 / 1000, gr_rank = 1,
            gr_total_players = 12, game_result = ''win''\<rparr>
   \<and> map_option total_games
        (get_user_by_privy_id
           (snd (end_game default_settings example_env_end_again example_db_ended auth_alice
                   example_game_end)) (au_user_id auth_alice)) = Some (Some 2)"
proof -
  have d: "distinct (map u_id (users example_db_joined))"
    by (simp add: example_defs)
  have a: "get_user_by_privy_id example_db_joined (au_user_id auth_alice) = Some alice_joined"
    by (simp add: get_user_by_privy_id_def example_defs)
  have s: "find (\<lambda>s. s_id s = ge_game_session_id example_game_end)
        (game_sessions example_db_joined) = Some example_session"
    by (simp add: example_defs)
  have o: "s_user_id example_session = u_id alice_joined"
    by (simp add: example_defs)
  have p: "882 / 1000 = calculate_payout default_settings (s_bet_amount example_session)
        (ge_final_rank example_game_end) (random_total_players example_env_end)"
    and p': "882 / 1000 = calculate_payout default_settings (s_bet_amount example_session)
        (ge_final_rank example_game_end) (random_total_players example_env_end_again)"
    by (simp_all add: calculate_payout_def default_settings_def decimal_eval example_defs)
  have f: "uuid4 example_env_end 0 \<notin> set (map t_id (transactions example_db_joined))"
    "uuid4 example_env_end_again 0 \<notin> set (map t_id (transactions example_db_joined))"
    "uuid4 example_env_end_again 0 \<noteq> uuid4 example_env_end 0"
    by (simp_all add: example_defs)
  have f1: "(0::rat) < 882 / 1000
      \<longrightarrow> uuid4 example_env_end 0 \<notin> set (map t_id (transactions example_db_joined))"
    and f2: "(0::rat) < 882 / 1000
      \<longrightarrow> uuid4 example_env_end_again 0 \<notin> set (map t_id (transactions example_db_joined))
        \<and> uuid4 example_env_end_again 0 \<noteq> uuid4 example_env_end 0"
    using f by simp_all
  note T = end_game_not_guarded [OF d a s o p f1 refl p' f2 example_db_ended_def]
  have t: "fst (end_game default_settings example_env_end_again example_db_ended auth_alice
            example_game_end) =
       Inr \<lparr>gr_payout = 882 / 1000, gr_new_balance = 2264 / 1000, gr_rank = 1,
            gr_total_players = 12, game_result = ''win''\<rparr>"
    "map_option total_games
        (get_user_by_privy_id
           (snd (end_game default_settings example_env_end_again example_db_ended auth_alice
                   example_game_end)) (au_user_id auth_alice)) = Some (Some 2)"
    using T by (simp_all add: dict_get_def decimal_eval example_defs)
  from d a s o p [symmetric] p' [symmetric] f t show ?thesis
    by (intro conjI)
qed

text \<open>
  The claim as written fails on the example: the game Alice joined with a bet of 0.5
  is ended at rank 1 (payout 0.882, balance 1.382), and ending it again is neither
  rejected nor without effect. The second end pays 0.882 again, the balance becomes
  2.264, and there are two \<open>payout\<close> transactions for the one session.
\<close>

theorem end_game_twice_counterexample:
  "fst (end_game default_settings example_env_end example_db_joined auth_alice
          example_game_end) =
     Inr \<lparr>gr_payout = 882 / 1000, gr_new_balance = 1382 / 1000, gr_rank = 1,
          gr_total_players = 9, game_result = ''win''\<rparr>
   \<and> map s_status (game_sessions example_db_ended) = [''completed'']
   \<and> map balance (users example_db_ended) = [Some (1382 / 1000), Some (3 / 10)]
   \<and> fst (end_game default_settings example_env_end_again example_db_ended auth_alice
            example_game_end) =
       Inr \<lparr>gr_payout = 882 / 1000, gr_new_balance = 2264 / 1000, gr_rank = 1,
            gr_total_players = 12, game_result = ''win''\<rparr>
   \<and> map balance
        (users (snd (end_game default_settings example_env_end_again example_db_ended
                       auth_alice example_game_end)))
       = [Some (2264 / 1000), Some (3 / 10)]
   \<and> map t_type
        (transactions (snd (end_game default_settings example_env_end_again example_db_ended
                              auth_alice example_game_end)))
       = [''bet'', ''payout'', ''payout'']
   \<and> map t_reference_id
        (transactions (snd (end_game default_settings example_env_end_again example_db_ended
                              auth_alice example_game_end)))
       = [''uuid-0'', ''uuid-0'', ''uuid-0'']"
  by (simp add: example_db_ended_def end_game_def get_user_by_privy_id_def Let_def
      update_user_balance_def update_game_session_def update_user_def
      create_transaction_def transactions_insert_one_def dict_get_def
      calculate_payout_def default_settings_def decimal_eval example_defs)

subsection \<open>The leaderboard\<close>

lemmas board_defs = board_user_def example_now_def example_board_db_def



lemma set_insert_sorted: "set (insert_sorted u vs) = insert u (set vs)"
  by (induction vs) auto

lemma length_insert_sorted: "length (insert_sorted u vs) = Suc (length vs)"
  by (induction vs) auto


lemma set_sort_stage: "set (sort_stage us) = set us"
  by (induction us) (simp_all add: sort_stage_def set_insert_sorted)

lemma length_sort_stage: "length (sort_stage us) = length us"
  by (induction us) (simp_all add: sort_stage_def length_insert_sorted)


lemma leaderboard_nth:
  assumes "i < length (get_global_leaderboard fl now d period limit)"
  shows "get_global_leaderboard fl now d period limit ! i =
           (project_stage fl
              (take limit (sort_stage (match_stage (date_filter period now) (users d))) ! i))
           \<lparr>lb_rank := Some (i + 1)\<rparr>"
    and "i < length (take limit (sort_stage (match_stage (date_filter period now) (users d))))"
  using assms by (simp_all add: get_global_leaderboard_def nth_enumerate_eq)


lemma length_leaderboard:
  "length (get_global_leaderboard fl now d period limit) =
     min limit (length (match_stage (date_filter period now) (users d)))"
  by (simp add: get_global_leaderboard_def length_sort_stage min.commute)





lemma leaderboard_user_ids:
  "map lb_user_id (get_global_leaderboard fl now d period limit) =
     map u_id (take limit (sort_stage (match_stage (date_filter period now) (users d))))"
proof (rule nth_equalityI)
  show "length (map lb_user_id (get_global_leaderboard fl now d period limit)) =
        length (map u_id (take limit (sort_stage (match_stage (date_filter period now)
                                                    (users d)))))"
    by (simp add: get_global_leaderboard_def)
next
  fix i
  assume "i < length (map lb_user_id (get_global_leaderboard fl now d period limit))"
  then have i: "i < length (get_global_leaderboard fl now d period limit)" by simp
  from leaderboard_nth [OF i]
  show "map lb_user_id (get_global_leaderboard fl now d period limit) ! i =
        map u_id (take limit (sort_stage (match_stage (date_filter period now) (users d)))) ! i"
    using i by (simp add: project_stage_def)
qed

text \<open>
  C7 (as the code has it). The pipeline filters on \<open>created_at\<close>, the time the
  user's document was created, and reads no timestamp of the user's activity. With
  period daily, weekly or monthly the result is made of users whose \<open>created_at\<close> is
  at or after the clock reading minus 1, 7 or 30 days, and with any other period of
  all users: it holds only such users, and all of them up to the \<open>limit\<close> of the
  query (it is the first \<open>limit\<close> of them in leaderboard order).
\<close>

theorem leaderboard_period_filter:
  assumes "r = get_global_leaderboard fl now d period limit"
      and "days = (if period = ''daily'' then Some 1 else if period = ''weekly'' then Some 7
                   else if period = ''monthly'' then Some 30 else None)"
      and "W = filter (\<lambda>u. case days of None \<Rightarrow> True
                            | Some n \<Rightarrow> (\<exists>t. u_created_at u = Some t
                                             \<and> now - n * 86400000 \<le> t)) (users d)"
  shows "map lb_user_id r = map u_id (take limit (sort_stage W))
       \<and> set (map lb_user_id r) \<subseteq> set (map u_id W)
       \<and> length r = min limit (length W)
       \<and> (length W \<le> limit \<longrightarrow> set (map lb_user_id r) = set (map u_id W))"
proof -
  have W: "match_stage (date_filter period now) (users d) = W"
    unfolding assms(2,3)
    by (auto simp: match_stage_def date_filter_def timedelta_days_def
        intro!: filter_cong split: option.splits)
  have ids: "map lb_user_id r = map u_id (take limit (sort_stage W))"
    unfolding assms(1) leaderboard_user_ids W ..
  have sub: "set (map lb_user_id r) \<subseteq> set (map u_id W)"
    unfolding ids by (auto dest!: in_set_takeD simp: set_sort_stage)
  have len: "length r = min limit (length W)"
    unfolding assms(1) length_leaderboard W ..
  have all: "set (map lb_user_id r) = set (map u_id W)" if "length W \<le> limit"
    unfolding ids using that by (simp add: length_sort_stage set_sort_stage)
  from ids sub len all show ?thesis by blast
qed

theorem leaderboard_period_filter_witness:
  "set (map lb_user_id
          (get_global_leaderboard (\<lambda>x. x) example_now example_board_db ''daily'' 100))
     = {''gina'', ''dave''}
   \<and> length (get_global_leaderboard (\<lambda>x. x) example_now example_board_db ''daily'' 100) = 2"
proof -
  let ?c = "board_user ''gina'' 5 10 (Some 4) (1700000000000 - 3600000)"
  let ?d = "board_user ''dave'' 5 12 (Some 3) (1700000000000 - 7200000)"
  have days: "Some 1 = (if ''daily'' = ''daily'' then Some 1 else if ''daily'' = ''weekly''
      then Some 7 else if ''daily'' = ''monthly'' then Some 30 else None)"
    by simp
  have W: "[?c, ?d] =
      filter (\<lambda>u. case Some 1 of None \<Rightarrow> True
                   | Some n \<Rightarrow> (\<exists>t. u_created_at u = Some t
                                    \<and> example_now - n * 86400000 \<le> t))
        (users example_board_db)"
    by (simp add: board_defs)
  note T = leaderboard_period_filter [OF refl days W, of "\<lambda>x. x" 100]
  have len: "length (get_global_leaderboard (\<lambda>x. x) example_now example_board_db ''daily'' 100)
      = min 100 (length [?c, ?d])"
    by (rule T [THEN conjunct2, THEN conjunct2, THEN conjunct1])
  have "length [?c, ?d] \<le> 100" by simp
  with T [THEN conjunct2, THEN conjunct2, THEN conjunct2]
  have ids: "set (map lb_user_id
          (get_global_leaderboard (\<lambda>x. x) example_now example_board_db ''daily'' 100))
     = set (map u_id [?c, ?d])"
    by (rule mp)
  show ?thesis
    unfolding len ids by (simp add: board_user_def)
qed

text \<open>
  The claim as written fails for a user who is active but was not created in the
  window: Hana's document was created 40 days ago and last written one minute ago,
  and the daily leaderboard is empty.
\<close>

theorem leaderboard_activity_counterexample:
  "map u_created_at (users example_returning_db) = [Some (example_now - timedelta_days 40)]
   \<and> map updated_at (users example_returning_db) = [Some (example_now - 60000)]
   \<and> example_now - timedelta_days 1 \<le> example_now - 60000
   \<and> example_now - 60000 \<le> example_now
   \<and> get_global_leaderboard (\<lambda>x. x) example_now example_returning_db ''daily'' 100 = []"
  by (simp add: get_global_leaderboard_def date_filter_def match_stage_def sort_stage_def
      timedelta_days_def hana_def example_returning_db_def board_defs)










subsection \<open>Request validation\<close>

lemma strip_zeros_numeral [simp]:
  "strip_zeros (numeral v) e =
     (if (numeral v :: nat) mod 10 = 0 then strip_zeros (numeral v div 10) (e + 1)
      else (numeral v, e))"
  by (subst strip_zeros.simps) simp

lemma strip_zeros_small [simp]: "strip_zeros 0 e = (0, 0)" "strip_zeros 1 e = (1, e)"
  by (simp_all add: strip_zeros.simps)

lemmas parse_defs = parse_BetRequest_def BetRequest_errors_def bet_amount_field_errors_def
  normalize_def literal_round_def decimal_value_def validate_bet_amount_def
  game_type_field_errors_def validate_game_type_def allowed_types_def Let_def

text \<open>Trailing zeros do not count as decimal places: 0.5000000 is a valid amount.\<close>

lemma trailing_zeros_accepted:
  "parse_BetRequest
     \<lparr>in_bet_amount = \<lparr>negative = False, coefficient = 5000000, exponent = - 7\<rparr>,
      in_game_type = ''practice'', in_appearance = None\<rparr>
   = Inr \<lparr>req_bet_amount = 1 / 2, req_game_type = ''practice'', req_appearance = None\<rparr>"
  by (simp add: parse_defs)

lemma parse_BetRequest_accepts:
  assumes "parse_BetRequest r = Inr req"
  shows "req_game_type req \<in> set allowed_types"
    and "0 < req_bet_amount req" and "req_bet_amount req \<le> 10"
  using assms
  by (auto simp: parse_BetRequest_def BetRequest_errors_def validate_bet_amount_def
      validate_game_type_def split: list.splits sum.splits if_splits)

text \<open>
  C8. The claim asks that a bet outside the configured limits be rejected. The
  validators of \<open>BetRequest\<close> compare the amount with 0 and with the constant 10 and
  never read \<open>MIN_BET_AMOUNT\<close> or \<open>MAX_BET_AMOUNT\<close>: a bet of 0.0005, below the
  configured minimum of 0.001, is accepted, and join then debits it.
\<close>

theorem bet_below_minimum_accepted:
  "parse_BetRequest small_bet_input =
     Inr \<lparr>req_bet_amount = 1 / 2000, req_game_type = ''practice'', req_appearance = None\<rparr>
   \<and> (1 / 2000 :: rat) < MIN_BET_AMOUNT default_settings
   \<and> fst (join_game example_env example_db auth_alice
            \<lparr>req_bet_amount = 1 / 2000, req_game_type = ''practice'',
             req_appearance = None\<rparr>) =
       Inr \<lparr>game_session_id = ''uuid-0'', gs_bet_amount = 1 / 2000,
            gs_new_balance = 1999 / 2000, game_state = ''active'', other_players = []\<rparr>"
  by (simp add: parse_defs small_bet_input_def default_settings_def
      join_game_def get_user_by_privy_id_def create_game_session_def
      create_transaction_def game_sessions_insert_one_def transactions_insert_one_def
      update_user_balance_def dict_get_def decimal_eval example_defs)

end
